theory Spec2Isabelle
  imports Complex_Main
begin

section \<open>IoT sensor analytics backend: the generator and the analytics handler\<close>

text \<open>
  The repository is one Python module, \<^verbatim>\<open>main.py\<close>, with two functions of interest:
  \<^verbatim>\<open>simulate_sensor_data(num_records=100)\<close>, which builds a data frame of simulated
  readings, and the request handler \<^verbatim>\<open>get_analytics_data()\<close>, which calls the generator
  with 150 records, computes aggregates and re-renders the rows.

  Modelling decisions, stated once:
  \<^item> A \<^verbatim>\<open>float64\<close> result is NaN, an infinity, or a finite value given as the real
    number it denotes (the two zeros are one value). Rounding to 2 decimals is modelled
    in binary64 as numpy computes it: the product with 100 is rounded to the nearest
    double, then \<open>rint\<close>, then the quotient by 100 is rounded to the nearest double.
  \<^item> The readings of a frame are finite values. The generator's affine map of a normal
    draw and the mean of a column are taken over exact reals: the order in which the
    library adds a column in binary64 depends on its backend and is not modelled, so
    nothing is proved here that depends on the rounding error of a sum.
  \<^item> A timestamp is the integer the library stores: nanoseconds since the epoch of the
    naive (local wall-clock) instant, a signed 64-bit value. Generating a range that
    leaves the 64-bit range is an error of the library, and is an error of the model.
  \<^item> The process-wide random generator is an explicit state: a stream of raw integer
    draws and a stream of standard-normal draws, consumed from the front.
  \<^item> Every exception of the source or of the library calls it makes is a value
    \<open>Inl e\<close> of a sum type.
\<close>

subsection \<open>Data\<close>

text \<open>
  The exceptions of the library calls. \<^verbatim>\<open>OutOfBoundsDatetime\<close> is a subclass of
  \<^verbatim>\<open>ValueError\<close> in the library.
\<close>

datatype error = ValueError | OutOfBoundsDatetime | AssertionError

datatype float64 = NaN | PosInf | NegInf | Val real

type_synonym timestamp = int

text \<open>
  The data frame built at line 45: four columns of equal length. Step C of the handler
  replaces three of the columns one at a time, each by a column of another type.
\<close>

record ('t, 'x, 'h) dataframe =
  timestamp_col :: "'t list"
  sensor_id_col :: "string list"
  temperature_col :: "'x list"
  humidity_col :: "'h list"

text \<open>One dictionary of \<^verbatim>\<open>df.to_dict(orient='records')\<close>.\<close>

record row =
  timestamp :: string
  sensor_id :: string
  temperature :: float64
  humidity :: float64

text \<open>The payload returned at line 86 (the fields of \<^verbatim>\<open>AnalyticsResult\<close>).\<close>

record analytics_result =
  total_records :: int
  average_temp :: float64
  max_temp :: float64
  min_temp :: float64
  average_humidity :: float64
  records_per_sensor :: "string \<rightharpoonup> int"
  raw_data :: "row list"

text \<open>The random generator's state: what it will draw next.\<close>

record rng_state =
  ints :: "nat \<Rightarrow> nat"
  gauss :: "nat \<Rightarrow> real"

subsection \<open>Library functions the source calls\<close>

text \<open>\<^verbatim>\<open>numpy.arange(b, e, stride)\<close> for a positive stride: \<open>b, b + stride, ...\<close> below \<open>e\<close>.\<close>

definition arange :: "int \<Rightarrow> int \<Rightarrow> int \<Rightarrow> int list" where
  "arange b e stride =
     map (\<lambda>k. b + int k * stride) [0 ..< nat ((e - b + stride - 1) div stride)]"

definition MINUTE :: int where
  "MINUTE = 60 * 1000000000"

text \<open>The largest value of a signed 64-bit integer, and the smallest, which the library reads as NaT.\<close>

definition i8max :: int where
  "i8max = 2 ^ 63 - 1"

definition iNaT :: int where
  "iNaT = - (2 ^ 63)"

text \<open>
  \<^verbatim>\<open>pd.date_range(end=end, periods=periods, freq='T')\<close>: the library computes the
  exclusive upper end \<open>e = end + stride\<close>, the start \<open>b = e - periods * stride\<close> with
  a check of overflow, and takes \<open>arange b e stride\<close>. It raises
  \<^verbatim>\<open>OutOfBoundsDatetime\<close> for a negative \<open>periods\<close> and when \<open>b\<close> is not above the
  smallest 64-bit value, and it fails an assertion when \<open>e\<close> exceeds the largest.
\<close>

definition date_range :: "timestamp \<Rightarrow> int \<Rightarrow> int \<Rightarrow> error + timestamp list" where
  "date_range end periods stride =
     (if periods < 0 then Inl OutOfBoundsDatetime
      else let e = end + stride in
        if i8max < e then Inl AssertionError
        else let b = e - periods * stride in
          if b \<le> iNaT then Inl OutOfBoundsDatetime
          else Inr (arange b e stride))"

text \<open>
  \<^verbatim>\<open>np.random.choice(a, size)\<close>: \<open>size\<close> indices drawn in \<open>[0, len(a))\<close>, each
  selecting an element of \<open>a\<close>. A negative size raises \<^verbatim>\<open>ValueError\<close>, and so does an
  empty \<open>a\<close> when samples are taken.
\<close>

definition np_random_choice ::
  "'a list \<Rightarrow> int \<Rightarrow> rng_state \<Rightarrow> error + ('a list \<times> rng_state)" where
  "np_random_choice a sz g =
     (if sz < 0 then Inl ValueError
      else if a = [] \<and> sz \<noteq> 0 then Inl ValueError
      else let n = nat sz in
        Inr (map (\<lambda>k. a ! (ints g k mod length a)) [0 ..< n],
             g\<lparr>ints := (\<lambda>k. ints g (k + n))\<rparr>))"

text \<open>
  \<^verbatim>\<open>np.random.normal(loc, scale, size)\<close>: \<open>loc + scale * z\<close> for each of \<open>size\<close>
  standard-normal draws \<open>z\<close>. A negative size raises \<^verbatim>\<open>ValueError\<close>.
\<close>

definition np_random_normal ::
  "real \<Rightarrow> real \<Rightarrow> int \<Rightarrow> rng_state \<Rightarrow> error + (real list \<times> rng_state)" where
  "np_random_normal loc scale sz g =
     (if sz < 0 then Inl ValueError
      else let n = nat sz in
        Inr (map (\<lambda>k. loc + scale * gauss g k) [0 ..< n],
             g\<lparr>gauss := (\<lambda>k. gauss g (k + n))\<rparr>))"

text \<open>\<^verbatim>\<open>numpy.rint\<close>: the nearest integer, a tie going to the even neighbour.\<close>

definition rint :: "real \<Rightarrow> int" where
  "rint x =
     (let f = \<lfloor>x\<rfloor>; d = x - of_int f in
      if d < 1 / 2 then f
      else if 1 / 2 < d then f + 1
      else if even f then f else f + 1)"

text \<open>
  Rounding a real number to the nearest binary64 value, ties to the even significand.
  \<open>binade a\<close> is the exponent \<open>e\<close> with \<open>2 ^ e \<le> a < 2 ^ (e + 1)\<close>, read off
  the number of binary digits of the integer part of \<open>a\<close> or of \<open>1 / a\<close>, and kept
  between \<open>-1022\<close> (below it the doubles are subnormal and equally spaced) and
  \<open>1024\<close> (from there on the result is an infinity). The doubles of that binade are
  the multiples of \<open>2 ^ (e - 52)\<close>, and \<open>m\<close> is the significand of the nearest one.
  The rounded value reaches \<open>2 ^ 1024\<close>, and the result is an infinity, exactly when
  the binade is 1024 or the significand of binade 1023 rounds up to \<open>2 ^ 53\<close>.
\<close>

definition pow2 :: "int \<Rightarrow> real" where
  "pow2 e = (if 0 \<le> e then 2 ^ nat e else 1 / 2 ^ nat (- e))"

function bit_length :: "int \<Rightarrow> int" where
  "bit_length n = (if n \<le> 0 then 0 else 1 + bit_length (n div 2))"
  by pat_completeness auto
termination
  by (relation "measure nat") auto

declare bit_length.simps [simp del]

definition binade :: "real \<Rightarrow> int" where
  "binade a =
     (if 1 \<le> a then min 1024 (bit_length \<lfloor>a\<rfloor> - 1)
      else max (- 1022) (- bit_length (\<lceil>1 / a\<rceil> - 1)))"

definition fl :: "real \<Rightarrow> float64" where
  "fl x =
     (if x = 0 then Val 0
      else let e = binade \<bar>x\<bar>; q = pow2 (e - 52); m = rint (x / q) in
        if 1024 \<le> e \<or> (e = 1023 \<and> 2 ^ 53 \<le> \<bar>m\<bar>)
        then (if 0 < x then PosInf else NegInf)
        else Val (of_int m * q))"

text \<open>
  Rounding to 2 decimals as numpy does it, for \<^verbatim>\<open>Series.round(2)\<close> and for
  \<^verbatim>\<open>round(x, 2)\<close> on a numpy scalar alike: multiply by 100, \<open>rint\<close>, divide by
  100, each of the two arithmetic steps rounded to binary64. \<open>rint\<close> of a double is
  exact, and an infinite product stays infinite.
\<close>

definition np_round2 :: "real \<Rightarrow> float64" where
  "np_round2 x =
     (case fl (x * 100) of
        Val y \<Rightarrow> fl (of_int (rint y) / 100)
      | PosInf \<Rightarrow> PosInf
      | NegInf \<Rightarrow> NegInf
      | NaN \<Rightarrow> NaN)"

fun py_round2 :: "float64 \<Rightarrow> float64" where
  "py_round2 NaN = NaN"
| "py_round2 PosInf = PosInf"
| "py_round2 NegInf = NegInf"
| "py_round2 (Val x) = np_round2 x"

text \<open>
  \<^verbatim>\<open>Series.mean()\<close>, \<^verbatim>\<open>Series.max()\<close>, \<^verbatim>\<open>Series.min()\<close>: on an empty column
  the library returns \<open>NaN\<close> and raises nothing. Maximum and minimum are exact in
  binary64. The mean is the exact quotient of the exact sum: the library's sum in
  binary64 can differ from it in the last places, by an amount that depends on the
  order of the additions.
\<close>

fun series_mean :: "real list \<Rightarrow> float64" where
  "series_mean [] = NaN"
| "series_mean (x # xs) = Val (sum_list (x # xs) / of_nat (length (x # xs)))"

fun series_max :: "real list \<Rightarrow> float64" where
  "series_max [] = NaN"
| "series_max (x # xs) = Val (fold max xs x)"

fun series_min :: "real list \<Rightarrow> float64" where
  "series_min [] = NaN"
| "series_min (x # xs) = Val (fold min xs x)"

text \<open>
  \<^verbatim>\<open>Series.value_counts().to_dict()\<close>: each value that occurs, mapped to the number
  of its occurrences. The dictionary is read as a mapping; the order of its keys is not
  modelled.
\<close>

definition value_counts :: "'a list \<Rightarrow> ('a \<rightharpoonup> int)" where
  "value_counts xs = (\<lambda>k. if k \<in> set xs then Some (int (count_list xs k)) else None)"

subsection \<open>Rendering a timestamp\<close>

text \<open>
  \<^verbatim>\<open>Series.dt.strftime('%Y-%m-%d %H:%M:%S')\<close> breaks the stored integer into
  calendar fields and prints them. The library's conversion is followed here: the
  day number and the time of day by floor division, the year by the 400, 100, 4 and
  1 year cycles counted from the year 2000, the month by walking the table of month
  lengths.
\<close>

definition is_leapyear :: "int \<Rightarrow> bool" where
  "is_leapyear year =
     (if year mod 400 = 0 then True
      else if year mod 100 = 0 then False
      else year mod 4 = 0)"

definition days_per_month_table :: "bool \<Rightarrow> int list" where
  "days_per_month_table leap =
     (if leap then [31, 29, 31, 30, 31, 30, 31, 31, 30, 31, 30, 31]
      else [31, 28, 31, 30, 31, 30, 31, 31, 30, 31, 30, 31])"

text \<open>The year and the day within the year (from 0) of a day number counted from 1970-01-01.\<close>

definition days_to_yearsdays :: "int \<Rightarrow> int \<times> int" where
  "days_to_yearsdays days0 =
     (let days_per_400years = 400 * 365 + 100 - 4 + 1;
          days = days0 - (365 * 30 + 7);
          year = 400 * (days div days_per_400years);
          days = days mod days_per_400years
      in if 366 \<le> days then
           (let year = year + 100 * ((days - 1) div (100 * 365 + 25 - 1));
                days = (days - 1) mod (100 * 365 + 25 - 1)
            in if 365 \<le> days then
                 (let year = year + 4 * ((days + 1) div (4 * 365 + 1));
                      days = (days + 1) mod (4 * 365 + 1)
                  in if 366 \<le> days then
                       (year + (days - 1) div 365 + 2000, (days - 1) mod 365)
                     else (year + 2000, days))
               else (year + 2000, days))
         else (year + 2000, days))"

text \<open>
  The loop over the twelve month lengths: \<open>i\<close> is the number of the month under
  test. When no month takes the day, the fields keep their initial values, month 1 and
  day 1.
\<close>

fun find_month :: "int list \<Rightarrow> int \<Rightarrow> int \<Rightarrow> int \<times> int" where
  "find_month [] i days = (1, 1)"
| "find_month (l # ls) i days =
     (if days < l then (i, days + 1) else find_month ls (i + 1) (days - l))"

record datetimestruct =
  dts_year :: int
  dts_month :: int
  dts_day :: int
  dts_hour :: int
  dts_min :: int
  dts_sec :: int

definition to_datetimestruct :: "timestamp \<Rightarrow> datetimestruct" where
  "to_datetimestruct dt =
     (let perday = 24 * 60 * 60 * 1000000000;
          (year, yday) = days_to_yearsdays (dt div perday);
          (month, day) = find_month (days_per_month_table (is_leapyear year)) 1 yday;
          r = dt mod perday;
          hour = r div (60 * 60 * 1000000000);
          r = r mod (60 * 60 * 1000000000);
          minute = r div (60 * 1000000000);
          r = r mod (60 * 1000000000)
      in \<lparr>dts_year = year, dts_month = month, dts_day = day,
          dts_hour = hour, dts_min = minute, dts_sec = r div 1000000000\<rparr>)"

definition digit :: "nat \<Rightarrow> char" where
  "digit n = ''0123456789'' ! n"

text \<open>The decimal digits of a natural number, without leading zeros.\<close>

fun dec :: "nat \<Rightarrow> string" where
  "dec n = (if n < 10 then [digit n] else dec (n div 10) @ [digit (n mod 10)])"

declare dec.simps [simp del]

definition str_int :: "int \<Rightarrow> string" where
  "str_int v = (if v < 0 then CHR ''-'' # dec (nat (- v)) else dec (nat v))"

text \<open>The format \<^verbatim>\<open>{:02d}\<close>: padded with zeros on the left to two characters.\<close>

definition format_02d :: "int \<Rightarrow> string" where
  "format_02d v = (let s = str_int v in replicate (2 - length s) CHR ''0'' @ s)"

definition strftime :: "timestamp \<Rightarrow> string" where
  "strftime dt =
     (let dts = to_datetimestruct dt in
      str_int (dts_year dts) @ ''-'' @ format_02d (dts_month dts) @ ''-'' @
      format_02d (dts_day dts) @ '' '' @ format_02d (dts_hour dts) @ '':'' @
      format_02d (dts_min dts) @ '':'' @ format_02d (dts_sec dts))"



text \<open>The range of the stored integer: a signed 64-bit count of nanoseconds.\<close>

definition in_bounds :: "timestamp \<Rightarrow> bool" where
  "in_bounds dt = (- (2 ^ 63) < dt \<and> dt < 2 ^ 63)"

subsection \<open>The generator, \<^verbatim>\<open>simulate_sensor_data\<close>\<close>

definition SENSOR_IDS :: "string list" where
  "SENSOR_IDS = [''sensor_alpha'', ''sensor_beta'', ''sensor_gamma'']"

text \<open>
  \<^verbatim>\<open>simulate_sensor_data(num_records: int = 100)\<close>. The argument is optional;
  \<open>None\<close> stands for a call that leaves it out. \<open>now\<close> is the value of
  \<^verbatim>\<open>pd.Timestamp.now()\<close>, read once at line 36.
\<close>

definition simulate_sensor_data ::
  "timestamp \<Rightarrow> rng_state \<Rightarrow> int option \<Rightarrow>
     error + ((timestamp, real, real) dataframe \<times> rng_state)" where
  "simulate_sensor_data now g arg =
     (let num_records = (case arg of None \<Rightarrow> 100 | Some n \<Rightarrow> n)
      in case date_range now num_records MINUTE of
           Inl e \<Rightarrow> Inl e
         | Inr timestamps \<Rightarrow>
        (case np_random_choice SENSOR_IDS num_records g of
           Inl e \<Rightarrow> Inl e
         | Inr (ids, g1) \<Rightarrow>
        (case np_random_normal 22.5 2.0 num_records g1 of
           Inl e \<Rightarrow> Inl e
         | Inr (temps, g2) \<Rightarrow>
        (case np_random_normal 55.0 5.0 num_records g2 of
           Inl e \<Rightarrow> Inl e
         | Inr (hums, g3) \<Rightarrow>
             Inr (\<lparr>timestamp_col = timestamps, sensor_id_col = ids,
                   temperature_col = temps, humidity_col = hums\<rparr>, g3)))))"

subsection \<open>The handler, \<^verbatim>\<open>get_analytics_data\<close>\<close>

text \<open>Step B, lines 70 to 77: the aggregates, computed on the frame as generated.\<close>

record analytics =
  a_total_records :: int
  a_average_temp :: float64
  a_max_temp :: float64
  a_min_temp :: float64
  a_average_humidity :: float64
  a_records_per_sensor :: "string \<rightharpoonup> int"

definition compute_analytics :: "('t, real, real) dataframe \<Rightarrow> analytics" where
  "compute_analytics df =
     \<lparr>a_total_records = int (length (timestamp_col df)),
      a_average_temp = py_round2 (series_mean (temperature_col df)),
      a_max_temp = py_round2 (series_max (temperature_col df)),
      a_min_temp = py_round2 (series_min (temperature_col df)),
      a_average_humidity = py_round2 (series_mean (humidity_col df)),
      a_records_per_sensor = value_counts (sensor_id_col df)\<rparr>"

text \<open>
  Step C, lines 80 to 82: three columns are replaced in turn, the timestamps by their
  rendering, the temperatures and the humidities by their values rounded to 2 decimals.
\<close>

definition format_frame :: "(timestamp, real, real) dataframe \<Rightarrow> (string, float64, float64) dataframe" where
  "format_frame df =
     (let df1 = \<lparr>timestamp_col = map strftime (timestamp_col df),
                 sensor_id_col = sensor_id_col df,
                 temperature_col = temperature_col df,
                 humidity_col = humidity_col df\<rparr>;
          df2 = \<lparr>timestamp_col = timestamp_col df1,
                 sensor_id_col = sensor_id_col df1,
                 temperature_col = map np_round2 (temperature_col df1),
                 humidity_col = humidity_col df1\<rparr>;
          df3 = \<lparr>timestamp_col = timestamp_col df2,
                 sensor_id_col = sensor_id_col df2,
                 temperature_col = temperature_col df2,
                 humidity_col = map np_round2 (humidity_col df2)\<rparr>
      in df3)"

text \<open>Line 83, \<^verbatim>\<open>df.to_dict(orient='records')\<close>: one dictionary per row, in row order.\<close>

definition to_dict_records :: "(string, float64, float64) dataframe \<Rightarrow> row list" where
  "to_dict_records df =
     map (\<lambda>(t, s, x, h). \<lparr>timestamp = t, sensor_id = s, temperature = x, humidity = h\<rparr>)
       (zip (timestamp_col df) (zip (sensor_id_col df)
          (zip (temperature_col df) (humidity_col df))))"

text \<open>
  Steps B to D, lines 70 to 86, as a function of the frame of Step A: the aggregates first,
  then the re-rendering of the frame, then the merge of both into the payload.
\<close>

definition summarize :: "(timestamp, real, real) dataframe \<Rightarrow> analytics_result" where
  "summarize df =
     (let analytics = compute_analytics df;
          raw_data_for_json = to_dict_records (format_frame df)
      in \<lparr>total_records = a_total_records analytics,
          average_temp = a_average_temp analytics,
          max_temp = a_max_temp analytics,
          min_temp = a_min_temp analytics,
          average_humidity = a_average_humidity analytics,
          records_per_sensor = a_records_per_sensor analytics,
          raw_data = raw_data_for_json\<rparr>)"


text \<open>A frame as the constructor at line 45 accepts it: all columns of one length.\<close>

definition nrows :: "('t, 'x, 'h) dataframe \<Rightarrow> nat" where
  "nrows df = length (timestamp_col df)"

definition well_formed :: "('t, 'x, 'h) dataframe \<Rightarrow> bool" where
  "well_formed df =
     (length (sensor_id_col df) = nrows df \<and>
      length (temperature_col df) = nrows df \<and>
      length (humidity_col df) = nrows df)"

text \<open>
  The range of \<open>periods\<close> instants ending at \<open>now\<close> fits the signed 64-bit integer:
  the exclusive upper end \<open>now + stride\<close> is at most the largest value and the first
  instant \<open>now - (periods - 1) * stride\<close> is above the smallest.
\<close>

definition fits_int64 :: "timestamp \<Rightarrow> int \<Rightarrow> bool" where
  "fits_int64 now periods =
     (now + MINUTE \<le> i8max \<and> iNaT < now + MINUTE - periods * MINUTE)"

subsection \<open>Concrete inputs\<close>

text \<open>A clock reading for the examples: 2026-11-04 02:04:05.123456789.\<close>

definition example_now :: timestamp where
  "example_now = 1793757845123456789"

text \<open>A generator state for the examples: the raw draws 0, 1, 2, ... and the normal draws 0, 1/4, 2/4, ...\<close>

definition example_rng :: rng_state where
  "example_rng = \<lparr>ints = (\<lambda>k. k), gauss = (\<lambda>k. real k / 4)\<rparr>"

text \<open>The frame with no rows.\<close>

definition empty_frame :: "(timestamp, real, real) dataframe" where
  "empty_frame = \<lparr>timestamp_col = [], sensor_id_col = [], temperature_col = [], humidity_col = []\<rparr>"

text \<open>The three readings of the scenario of claim C8, at any timestamps.\<close>

definition scenario_frame :: "timestamp list \<Rightarrow> (timestamp, real, real) dataframe" where
  "scenario_frame ts =
     \<lparr>timestamp_col = ts,
      sensor_id_col = [''sensor_alpha'', ''sensor_alpha'', ''sensor_beta''],
      temperature_col = [20.0, 22.0, 24.0],
      humidity_col = [50.0, 55.0, 60.0]\<rparr>"


text \<open>Three readings whose mean rounds differently before and after the rows are rounded.\<close>

definition rounding_frame :: "(timestamp, real, real) dataframe" where
  "rounding_frame =
     \<lparr>timestamp_col = [0, MINUTE, 2 * MINUTE],
      sensor_id_col = [''sensor_alpha'', ''sensor_beta'', ''sensor_gamma''],
      temperature_col = [3 / 512, 3 / 512, 0],
      humidity_col = [50.0, 55.0, 60.0]\<rparr>"

section \<open>Properties of the generator\<close>


lemma periods_div: "0 < (s::int) \<Longrightarrow> (n * s + s - 1) div s = n"
proof -
  assume s: "0 < s"
  have "(n * s + s - 1) div s = ((s - 1) + n * s) div s" by (simp add: algebra_simps)
  also have "\<dots> = (s - 1) div s + n" using s by (subst div_mult_self1) simp_all
  also have "(s - 1) div s = 0" using s by (simp add: div_pos_pos_trivial)
  finally show ?thesis by simp
qed

lemma arange_eq:
  assumes "0 < stride"
  shows "arange (e - n * stride) e stride =
           map (\<lambda>k. e - stride - (n - 1 - int k) * stride) [0 ..< nat n]"
proof -
  have "e - (e - n * stride) + stride - 1 = n * stride + stride - 1"
    by simp
  then have len: "(e - (e - n * stride) + stride - 1) div stride = n"
    using periods_div [OF assms] by simp
  have "\<And>k. e - n * stride + int k * stride = e - stride - (n - 1 - int k) * stride"
    by (simp add: algebra_simps)
  then show ?thesis
    unfolding arange_def len by simp
qed

lemma MINUTE_pos: "0 < MINUTE"
  by (simp add: MINUTE_def)

text \<open>Within the 64-bit range the library's range is the one-minute grid ending at \<open>now\<close>.\<close>

lemma date_range_eq:
  assumes "0 \<le> n" and "fits_int64 now n"
  shows "date_range now n MINUTE =
           Inr (map (\<lambda>k. now - (n - 1 - int k) * MINUTE) [0 ..< nat n])"
proof -
  from assms have c: "\<not> n < 0" "\<not> i8max < now + MINUTE"
    "\<not> now + MINUTE - n * MINUTE \<le> iNaT"
    by (simp_all add: fits_int64_def)
  show ?thesis
    unfolding date_range_def Let_def using c
    by (simp add: arange_eq [OF MINUTE_pos])
qed

lemma date_range_Inr_D:
  "date_range now n MINUTE = Inr ts \<Longrightarrow> 0 \<le> n \<and> fits_int64 now n"
  by (simp add: date_range_def fits_int64_def Let_def split: if_splits)

text \<open>What the generator returns when the range fits.\<close>

lemma simulate_Inr:
  "0 \<le> n \<Longrightarrow> fits_int64 now n \<Longrightarrow>
   simulate_sensor_data now g (Some n) =
     Inr (\<lparr>timestamp_col = map (\<lambda>k. now - (n - 1 - int k) * MINUTE) [0 ..< nat n],
           sensor_id_col = map (\<lambda>k. SENSOR_IDS ! (ints g k mod 3)) [0 ..< nat n],
           temperature_col = map (\<lambda>k. 22.5 + 2.0 * gauss g k) [0 ..< nat n],
           humidity_col = map (\<lambda>k. 55.0 + 5.0 * gauss g (k + nat n)) [0 ..< nat n]\<rparr>,
          \<lparr>ints = (\<lambda>k. ints g (k + nat n)), gauss = (\<lambda>k. gauss g (k + nat n + nat n))\<rparr>)"
  by (simp add: simulate_sensor_data_def np_random_choice_def np_random_normal_def Let_def
      date_range_eq SENSOR_IDS_def)

text \<open>The generator returns a frame only when the count is not negative and the range fits.\<close>

lemma simulate_Inr_D:
  assumes "simulate_sensor_data now g (Some n) = Inr (df, g')"
  shows "0 \<le> n \<and> fits_int64 now n"
proof (cases "date_range now n MINUTE")
  case (Inl e)
  with assms show ?thesis by (simp add: simulate_sensor_data_def)
next
  case (Inr ts)
  then show ?thesis by (rule date_range_Inr_D)
qed

lemma simulate_Inl: "n < 0 \<Longrightarrow> simulate_sensor_data now g (Some n) = Inl OutOfBoundsDatetime"
  by (simp add: simulate_sensor_data_def date_range_def)

lemma simulate_too_many:
  "0 \<le> n \<Longrightarrow> now + MINUTE \<le> i8max \<Longrightarrow> now + MINUTE - n * MINUTE \<le> iNaT \<Longrightarrow>
   simulate_sensor_data now g (Some n) = Inl OutOfBoundsDatetime"
  by (simp add: simulate_sensor_data_def date_range_def Let_def)

lemma length_SENSOR_IDS: "length SENSOR_IDS = 3"
  by (simp add: SENSOR_IDS_def)

lemma sensor_choice_mem: "SENSOR_IDS ! (r mod 3) \<in> set SENSOR_IDS"
  by (rule nth_mem) (simp add: length_SENSOR_IDS)

lemma fits_small: "fits_int64 1000 0" "fits_int64 1000 3" "fits_int64 1000 4"
  "fits_int64 example_now 150" "fits_int64 example_now 100"
  by (simp_all add: fits_int64_def i8max_def iNaT_def MINUTE_def example_now_def)

text \<open>
  Claim C2 says that the generator fails with an invalid-argument error for every count
  that is zero or negative. The source has no check of its argument. At count 0 every
  library call succeeds on an empty range, and the generator returns a frame with no rows.
\<close>

theorem generator_zero_counterexample:
  "map_sum id fst (simulate_sensor_data 1000 example_rng (Some 0)) =
     Inr \<lparr>timestamp_col = [], sensor_id_col = [], temperature_col = [], humidity_col = []\<rparr>"
  by (simp add: simulate_Inr fits_small)

text \<open>
  Claim C2, amended: for every negative count the generator fails, with the
  \<^verbatim>\<open>OutOfBoundsDatetime\<close> (a \<^verbatim>\<open>ValueError\<close>) that the library raises when it
  computes the range; for the count 0 it does not fail and returns a frame with no rows,
  at every clock reading whose next minute is representable.
\<close>

theorem generator_nonpositive:
  "(n < 0 \<longrightarrow> simulate_sensor_data now g (Some n) = Inl OutOfBoundsDatetime) \<and>
   (fits_int64 now 0 \<longrightarrow>
      map_sum id fst (simulate_sensor_data now g (Some 0)) =
        Inr \<lparr>timestamp_col = [], sensor_id_col = [], temperature_col = [], humidity_col = []\<rparr>)"
  by (simp add: simulate_Inr simulate_Inl)

theorem generator_nonpositive_witness:
  "(- 1 :: int) < 0 \<and>
   simulate_sensor_data 1000 example_rng (Some (- 1)) = Inl OutOfBoundsDatetime \<and>
   fits_int64 1000 0 \<and>
   map_sum id fst (simulate_sensor_data 1000 example_rng (Some 0)) =
     Inr \<lparr>timestamp_col = [], sensor_id_col = [], temperature_col = [], humidity_col = []\<rparr>"
  using generator_nonpositive [of "- 1" 1000 example_rng] fits_small(1) by simp

text \<open>
  Claim C3 says that for every count above 0 the generator returns exactly that many
  readings. The library keeps instants as signed 64-bit counts of nanoseconds: at the
  clock reading \<open>example_now\<close>, in November 2026, the instant 199,999,999 minutes
  earlier lies below the smallest value, and for the count 200,000,000 the generator
  fails with \<^verbatim>\<open>OutOfBoundsDatetime\<close> and returns no reading.
\<close>

theorem generator_overflow_counterexample:
  "(0::int) < 200000000 \<and>
   simulate_sensor_data example_now example_rng (Some 200000000) = Inl OutOfBoundsDatetime"
  by (simp add: simulate_too_many example_now_def i8max_def iNaT_def MINUTE_def)

text \<open>
  Claim C3, amended: for every count above 0 whose range of instants fits the signed
  64-bit integer (\<open>fits_int64\<close>), the generator returns exactly that many readings;
  the reading at position \<open>k\<close>, counted from 0 at the oldest, has the timestamp
  \<open>now - (count - 1 - k)\<close> minutes; consecutive timestamps are exactly one minute
  apart and increase strictly; the last timestamp is \<open>now\<close>, which is read once per
  call; and every timestamp is a valid 64-bit instant.
\<close>

theorem generator_timestamps:
  assumes "0 < n" and "fits_int64 now n"
  shows "\<exists>df g'. simulate_sensor_data now g (Some n) = Inr (df, g') \<and>
           int (nrows df) = n \<and> well_formed df \<and>
           (\<forall>k < nrows df. timestamp_col df ! k = now - (n - 1 - int k) * MINUTE) \<and>
           (\<forall>k. Suc k < nrows df \<longrightarrow> timestamp_col df ! Suc k = timestamp_col df ! k + MINUTE) \<and>
           (\<forall>k. Suc k < nrows df \<longrightarrow> timestamp_col df ! k < timestamp_col df ! Suc k) \<and>
           last (timestamp_col df) = now \<and>
           list_all in_bounds (timestamp_col df)"
proof -
  from assms have n: "0 \<le> n" and pos: "0 < nat n" by simp_all
  let ?ts = "map (\<lambda>k. now - (n - 1 - int k) * MINUTE) [0 ..< nat n]"
  have nth: "\<And>k. k < nat n \<Longrightarrow> ?ts ! k = now - (n - 1 - int k) * MINUTE"
    by simp
  have step: "\<And>k. Suc k < nat n \<Longrightarrow> ?ts ! Suc k = ?ts ! k + MINUTE"
    by (simp add: algebra_simps)
  have incr: "\<And>k. Suc k < nat n \<Longrightarrow> ?ts ! k < ?ts ! Suc k"
    using MINUTE_pos by (simp add: algebra_simps)
  have "?ts \<noteq> []" using pos by simp
  then have "last ?ts = ?ts ! (nat n - 1)" by (simp add: last_conv_nth)
  also have "\<dots> = now" using pos by (simp add: nth of_nat_diff)
  finally have lst: "last ?ts = now" .
  have inb: "in_bounds (now - (n - 1 - int k) * MINUTE)" if "k < nat n" for k
  proof -
    define d where "d = (n - 1 - int k) * MINUTE"
    from that have "0 \<le> n - 1 - int k" and "n - 1 - int k \<le> n - 1" by simp_all
    then have d: "0 \<le> d" "d \<le> (n - 1) * MINUTE"
      unfolding d_def using MINUTE_pos by (simp_all add: mult_right_mono)
    have "now + MINUTE - n * MINUTE = now - (n - 1) * MINUTE"
      by (simp add: algebra_simps)
    with assms(2) have "now + MINUTE \<le> 2 ^ 63 - 1" and "- (2 ^ 63) < now - (n - 1) * MINUTE"
      by (simp_all add: fits_int64_def i8max_def iNaT_def)
    with d MINUTE_pos have "- (2 ^ 63) < now - d \<and> now - d < 2 ^ 63" by linarith
    then show ?thesis by (simp add: in_bounds_def d_def)
  qed
  then have all: "list_all in_bounds ?ts"
    by (simp add: list_all_iff)
  show ?thesis
    unfolding simulate_Inr [OF n assms(2)]
    using n nth step incr lst all by (simp add: nrows_def well_formed_def)
qed

theorem generator_timestamps_witness:
  "(0::int) < 3 \<and> fits_int64 1000 3 \<and>
   (\<exists>df g'. simulate_sensor_data 1000 example_rng (Some 3) = Inr (df, g') \<and>
      nrows df = 3 \<and>
      timestamp_col df ! 0 = 1000 - 2 * MINUTE \<and>
      timestamp_col df ! 1 = 1000 - MINUTE \<and>
      timestamp_col df ! 2 = 1000 \<and>
      last (timestamp_col df) = 1000)"
proof -
  have "(0::int) < 3" by simp
  from generator_timestamps [OF this fits_small(2), of example_rng]
  obtain df g' where sim: "simulate_sensor_data 1000 example_rng (Some 3) = Inr (df, g')"
    and len: "int (nrows df) = 3"
    and nth: "\<forall>k < nrows df. timestamp_col df ! k = 1000 - (3 - 1 - int k) * MINUTE"
    and lst: "last (timestamp_col df) = 1000"
    by auto
  from len have n3: "nrows df = 3" by simp
  from nth n3 have "timestamp_col df ! 0 = 1000 - 2 * MINUTE"
    and "timestamp_col df ! 1 = 1000 - MINUTE" and "timestamp_col df ! 2 = 1000"
    by simp_all
  with sim n3 lst fits_small(2) show ?thesis by simp
qed

text \<open>
  Claim C9: every reading the generator produces has a sensor id in the fixed set of
  \<open>sensor_alpha\<close>, \<open>sensor_beta\<close> and \<open>sensor_gamma\<close>. This holds of every
  frame the generator returns, and it returns one for every count above 0 whose range of
  instants fits the signed 64-bit integer.
\<close>

theorem generator_sensor_ids:
  "(\<forall>df g'. simulate_sensor_data now g (Some n) = Inr (df, g') \<longrightarrow>
      int (length (sensor_id_col df)) = n \<and>
      set (sensor_id_col df) \<subseteq> {''sensor_alpha'', ''sensor_beta'', ''sensor_gamma''}) \<and>
   (0 < n \<and> fits_int64 now n \<longrightarrow> (\<exists>df g'. simulate_sensor_data now g (Some n) = Inr (df, g')))"
proof -
  have ids: "set SENSOR_IDS = {''sensor_alpha'', ''sensor_beta'', ''sensor_gamma''}"
    by (simp add: SENSOR_IDS_def)
  have mem: "\<And>r. SENSOR_IDS ! (r mod 3) \<in> {''sensor_alpha'', ''sensor_beta'', ''sensor_gamma''}"
    using sensor_choice_mem ids by blast
  have a: "int (length (sensor_id_col df)) = n \<and>
      set (sensor_id_col df) \<subseteq> {''sensor_alpha'', ''sensor_beta'', ''sensor_gamma''}"
    if sim: "simulate_sensor_data now g (Some n) = Inr (df, g')" for df g'
  proof -
    from simulate_Inr_D [OF sim] have n: "0 \<le> n" and f: "fits_int64 now n" by simp_all
    from sim [unfolded simulate_Inr [OF n f]]
    have "sensor_id_col df = map (\<lambda>k. SENSOR_IDS ! (ints g k mod 3)) [0 ..< nat n]"
      by auto
    with n mem show ?thesis by (auto simp del: insert_iff)
  qed
  have b: "\<exists>df g'. simulate_sensor_data now g (Some n) = Inr (df, g')"
    if "0 < n" and "fits_int64 now n"
    using that by (simp add: simulate_Inr)
  from a b show ?thesis by blast
qed

theorem generator_sensor_ids_witness:
  "(0::int) < 4 \<and> fits_int64 1000 4 \<and>
   (\<exists>df g'. simulate_sensor_data 1000 example_rng (Some 4) = Inr (df, g') \<and>
      sensor_id_col df = [''sensor_alpha'', ''sensor_beta'', ''sensor_gamma'', ''sensor_alpha''] \<and>
      set (sensor_id_col df) \<subseteq> {''sensor_alpha'', ''sensor_beta'', ''sensor_gamma''})"
proof -
  note t = generator_sensor_ids [of 1000 example_rng 4]
  from t fits_small(3)
  obtain df g' where sim: "simulate_sensor_data 1000 example_rng (Some 4) = Inr (df, g')"
    by auto
  with t have sub: "set (sensor_id_col df) \<subseteq> {''sensor_alpha'', ''sensor_beta'', ''sensor_gamma''}"
    by blast
  have "simulate_sensor_data 1000 example_rng (Some 4) =
      Inr (\<lparr>timestamp_col = map (\<lambda>k. 1000 - (4 - 1 - int k) * MINUTE) [0 ..< nat 4],
           sensor_id_col = map (\<lambda>k. SENSOR_IDS ! (ints example_rng k mod 3)) [0 ..< nat 4],
           temperature_col = map (\<lambda>k. 22.5 + 2.0 * gauss example_rng k) [0 ..< nat 4],
           humidity_col = map (\<lambda>k. 55.0 + 5.0 * gauss example_rng (k + nat 4)) [0 ..< nat 4]\<rparr>,
          \<lparr>ints = (\<lambda>k. ints example_rng (k + nat 4)),
           gauss = (\<lambda>k. gauss example_rng (k + nat 4 + nat 4))\<rparr>)"
    by (rule simulate_Inr) (simp_all add: fits_small)
  with sim have "sensor_id_col df = map (\<lambda>k. SENSOR_IDS ! (ints example_rng k mod 3)) [0 ..< nat 4]"
    by auto
  also have "\<dots> = [''sensor_alpha'', ''sensor_beta'', ''sensor_gamma'', ''sensor_alpha'']"
    by (simp add: example_rng_def SENSOR_IDS_def upt_rec)
  finally show ?thesis using sim sub fits_small(3) by simp
qed

section \<open>Properties of the handler\<close>

subsection \<open>The payload\<close>


lemma summarize_fields:
  "total_records (summarize df) = int (length (timestamp_col df))"
  "average_temp (summarize df) = py_round2 (series_mean (temperature_col df))"
  "max_temp (summarize df) = py_round2 (series_max (temperature_col df))"
  "min_temp (summarize df) = py_round2 (series_min (temperature_col df))"
  "average_humidity (summarize df) = py_round2 (series_mean (humidity_col df))"
  "records_per_sensor (summarize df) = value_counts (sensor_id_col df)"
  by (simp_all add: summarize_def compute_analytics_def Let_def)

lemma format_frame_cols:
  "timestamp_col (format_frame df) = map strftime (timestamp_col df)"
  "sensor_id_col (format_frame df) = sensor_id_col df"
  "temperature_col (format_frame df) = map np_round2 (temperature_col df)"
  "humidity_col (format_frame df) = map np_round2 (humidity_col df)"
  by (simp_all add: format_frame_def Let_def)

lemma raw_data_eq:
  "raw_data (summarize df) = to_dict_records (format_frame df)"
  by (simp add: summarize_def Let_def)



text \<open>
  Claim C1 says that the summarizer fails with an empty-input error on an empty
  sequence of readings, rather than producing NaN averages. The source has no such
  check: on the frame with no rows the aggregations return NaN, nothing is raised, and
  the result carries NaN in all four aggregates.
\<close>

theorem summarize_empty_counterexample:
  "total_records (summarize empty_frame) = 0 \<and>
   average_temp (summarize empty_frame) = NaN \<and>
   max_temp (summarize empty_frame) = NaN \<and>
   min_temp (summarize empty_frame) = NaN \<and>
   average_humidity (summarize empty_frame) = NaN"
  by (simp add: summarize_fields empty_frame_def)

text \<open>
  Claim C1, amended: on an empty sequence of readings the summarizer does not fail; it
  returns a result with \<open>total_records = 0\<close>, NaN for the average, maximum and
  minimum temperature and for the average humidity, an empty \<open>records_per_sensor\<close>
  and an empty \<open>raw_data\<close>.
\<close>

theorem summarize_empty:
  assumes "well_formed df" and "nrows df = 0"
  shows "summarize df =
           \<lparr>total_records = 0, average_temp = NaN, max_temp = NaN, min_temp = NaN,
            average_humidity = NaN, records_per_sensor = Map.empty, raw_data = []\<rparr>"
proof -
  from assms have cols: "timestamp_col df = []" "sensor_id_col df = []"
    "temperature_col df = []" "humidity_col df = []"
    by (simp_all add: well_formed_def nrows_def)
  show ?thesis
    by (simp add: summarize_def compute_analytics_def format_frame_def to_dict_records_def
        value_counts_def Let_def cols)
qed

theorem summarize_empty_witness:
  "well_formed empty_frame \<and> nrows empty_frame = 0 \<and>
   summarize empty_frame =
     \<lparr>total_records = 0, average_temp = NaN, max_temp = NaN, min_temp = NaN,
      average_humidity = NaN, records_per_sensor = Map.empty, raw_data = []\<rparr>"
proof -
  have wf: "well_formed empty_frame" and n: "nrows empty_frame = 0"
    by (simp_all add: well_formed_def nrows_def empty_frame_def)
  from summarize_empty [OF wf n] wf n show ?thesis by simp
qed

text \<open>Whole numbers of the scenario are doubles, and so are their products with 100.\<close>

lemma np_round2_whole:
  "np_round2 20 = Val 20" "np_round2 22 = Val 22" "np_round2 24 = Val 24"
  "np_round2 55 = Val 55" "np_round2 0 = Val 0"
  by code_simp+

text \<open>
  Claim C8: for the three readings with temperatures 20.0, 22.0, 24.0, humidities 50.0,
  55.0, 60.0 and sensor ids alpha, alpha, beta, the summarizer returns
  \<open>total_records = 3\<close>, \<open>average_temp = 22.00\<close>, \<open>max_temp = 24.00\<close>,
  \<open>min_temp = 20.00\<close>, \<open>average_humidity = 55.00\<close> and
  \<open>records_per_sensor = {alpha: 2, beta: 1}\<close>.
\<close>

theorem summarize_scenario:
  "total_records (summarize (scenario_frame [t0, t1, t2])) = 3 \<and>
   average_temp (summarize (scenario_frame [t0, t1, t2])) = Val 22.00 \<and>
   max_temp (summarize (scenario_frame [t0, t1, t2])) = Val 24.00 \<and>
   min_temp (summarize (scenario_frame [t0, t1, t2])) = Val 20.00 \<and>
   average_humidity (summarize (scenario_frame [t0, t1, t2])) = Val 55.00 \<and>
   records_per_sensor (summarize (scenario_frame [t0, t1, t2])) =
     [''sensor_alpha'' \<mapsto> 2, ''sensor_beta'' \<mapsto> 1]"
proof -
  have vc: "value_counts [''sensor_alpha'', ''sensor_alpha'', ''sensor_beta''] =
      [''sensor_alpha'' \<mapsto> 2, ''sensor_beta'' \<mapsto> 1]"
    by (rule ext) (simp add: value_counts_def)
  show ?thesis
    by (simp add: summarize_fields scenario_frame_def np_round2_whole vc)
qed





text \<open>
  Claim C7: the four aggregates are the rounded mean, maximum and minimum of the
  temperatures and the rounded mean of the humidities as generated, at full precision,
  each rounded on its own; they are not computed from the rows already rounded for
  \<open>raw_data\<close>. On \<open>rounding_frame\<close> the two differ: the average temperature is
  0.00, while the rounded rows are the double nearest 0.01, twice, and 0, and their mean
  rounds to the double nearest 0.01.
\<close>

theorem aggregates_from_full_precision:
  "average_temp (summarize df) = py_round2 (series_mean (temperature_col df)) \<and>
   max_temp (summarize df) = py_round2 (series_max (temperature_col df)) \<and>
   min_temp (summarize df) = py_round2 (series_min (temperature_col df)) \<and>
   average_humidity (summarize df) = py_round2 (series_mean (humidity_col df)) \<and>
   average_temp (summarize rounding_frame) = Val 0 \<and>
   map temperature (raw_data (summarize rounding_frame)) =
     [Val (5764607523034235 / 576460752303423488),
      Val (5764607523034235 / 576460752303423488), Val 0] \<and>
   py_round2 (series_mean
     [5764607523034235 / 576460752303423488, 5764607523034235 / 576460752303423488, 0]) =
     Val (5764607523034235 / 576460752303423488)"
proof -
  have a: "np_round2 (3 / 512) = Val (5764607523034235 / 576460752303423488)"
    by code_simp
  have rows: "map temperature (raw_data (summarize rounding_frame)) =
     [Val (5764607523034235 / 576460752303423488),
      Val (5764607523034235 / 576460752303423488), Val 0]"
    by (simp add: raw_data_eq to_dict_records_def format_frame_cols rounding_frame_def
        a np_round2_whole)
  have b: "py_round2 (series_mean [3 / 512, 3 / 512, 0]) = Val 0"
    by code_simp
  have c: "py_round2 (series_mean
     [5764607523034235 / 576460752303423488, 5764607523034235 / 576460752303423488, 0]) =
     Val (5764607523034235 / 576460752303423488)"
    by code_simp
  have "average_temp (summarize rounding_frame) = Val 0"
    using b by (simp add: summarize_fields rounding_frame_def)
  with rows c show ?thesis by (simp add: summarize_fields)
qed


subsection \<open>Counts per sensor\<close>

lemma dom_value_counts: "dom (value_counts xs) = set xs"
  by (auto simp: value_counts_def dom_def)

lemma value_counts_present:
  "k \<in> set xs \<Longrightarrow> value_counts xs k = Some (int (length (filter (\<lambda>s. s = k) xs)))"
proof -
  have "count_list xs k = length (filter (\<lambda>s. s = k) xs)"
    by (induction xs) auto
  then show "k \<in> set xs \<Longrightarrow> ?thesis" by (simp add: value_counts_def)
qed

lemma sum_value_counts:
  "(\<Sum>k \<in> dom (value_counts xs). the (value_counts xs k)) = int (length xs)"
proof -
  have "(\<Sum>k \<in> set xs. the (value_counts xs k)) = (\<Sum>k \<in> set xs. int (count_list xs k))"
    by (rule sum.cong) (simp_all add: value_counts_def)
  also have "\<dots> = int (\<Sum>k \<in> set xs. count_list xs k)" by simp
  also have "(\<Sum>k \<in> set xs. count_list xs k) = length xs"
    by (rule sum_count_set) simp_all
  finally show ?thesis by (simp add: dom_value_counts)
qed

text \<open>
  Claim C5: for every non-empty sequence of readings (a well-formed frame whose sensor
  ids are in the fixed set, as the data model has it), the keys of
  \<open>records_per_sensor\<close> are exactly the sensor ids present in the input, each mapped to
  the number of readings with that id; the counts sum to \<open>total_records\<close>; and every
  key is one of the three fixed sensor ids.
\<close>

theorem records_per_sensor_counts:
  assumes "well_formed df" and "nrows df \<noteq> 0"
    and "set (sensor_id_col df) \<subseteq> set SENSOR_IDS"
  shows "dom (records_per_sensor (summarize df)) = set (sensor_id_col df) \<and>
         (\<forall>k \<in> set (sensor_id_col df).
            records_per_sensor (summarize df) k =
              Some (int (length (filter (\<lambda>s. s = k) (sensor_id_col df))))) \<and>
         (\<Sum>k \<in> dom (records_per_sensor (summarize df)).
            the (records_per_sensor (summarize df) k)) = total_records (summarize df) \<and>
         dom (records_per_sensor (summarize df)) \<subseteq>
           {''sensor_alpha'', ''sensor_beta'', ''sensor_gamma''}"
proof -
  have len: "length (sensor_id_col df) = length (timestamp_col df)"
    using assms(1) by (simp add: well_formed_def nrows_def)
  have ids: "set SENSOR_IDS = {''sensor_alpha'', ''sensor_beta'', ''sensor_gamma''}"
    by (simp add: SENSOR_IDS_def)
  have total: "(\<Sum>k \<in> dom (value_counts (sensor_id_col df)).
      the (value_counts (sensor_id_col df) k)) = int (length (timestamp_col df))"
    by (simp only: sum_value_counts len)
  have present: "\<forall>k \<in> set (sensor_id_col df). value_counts (sensor_id_col df) k =
      Some (int (length (filter (\<lambda>s. s = k) (sensor_id_col df))))"
    by (simp add: value_counts_present)
  show ?thesis
    unfolding summarize_fields
    using assms(3) total present by (simp only: dom_value_counts ids simp_thms)
qed

theorem records_per_sensor_counts_witness:
  "well_formed (scenario_frame [0, 1, 2]) \<and> nrows (scenario_frame [0, 1, 2]) \<noteq> 0 \<and>
   set (sensor_id_col (scenario_frame [0, 1, 2])) \<subseteq> set SENSOR_IDS \<and>
   dom (records_per_sensor (summarize (scenario_frame [0, 1, 2]))) =
     {''sensor_alpha'', ''sensor_beta''} \<and>
   records_per_sensor (summarize (scenario_frame [0, 1, 2])) ''sensor_alpha'' = Some 2 \<and>
   (\<Sum>k \<in> dom (records_per_sensor (summarize (scenario_frame [0, 1, 2]))).
      the (records_per_sensor (summarize (scenario_frame [0, 1, 2])) k)) = 3"
proof -
  have wf: "well_formed (scenario_frame [0, 1, 2])"
    and n: "nrows (scenario_frame [0, 1, 2]) \<noteq> 0"
    and sub: "set (sensor_id_col (scenario_frame [0, 1, 2])) \<subseteq> set SENSOR_IDS"
    by (simp_all add: well_formed_def nrows_def scenario_frame_def SENSOR_IDS_def)
  have ids: "sensor_id_col (scenario_frame [0, 1, 2]) =
      [''sensor_alpha'', ''sensor_alpha'', ''sensor_beta'']"
    and tot: "total_records (summarize (scenario_frame [0, 1, 2])) = 3"
    by (simp_all add: scenario_frame_def summarize_fields)
  from records_per_sensor_counts [OF wf n sub] wf n sub show ?thesis
    unfolding ids tot by simp
qed

section \<open>Properties of the rows of the payload\<close>

subsection \<open>Calendar fields\<close>









subsection \<open>The rendered string\<close>










subsection \<open>The round trip\<close>




end
